theory Spec2Isabelle
  imports Main "HOL-Library.Sublist" "HOL-Library.Word"
begin

section \<open>The pixeldrain API client: data model\<close>

text \<open>
  The embedding follows \<^verbatim>\<open>backend/pixeldrain/api_client.go\<close>. Go strings are byte
  sequences and are modelled as \<^typ>\<open>string\<close>. The library type \<^verbatim>\<open>time.Time\<close> is opaque
  to this file, so it is a type parameter \<open>'t\<close>. The fields of type \<^verbatim>\<open>int64\<close> are 64-bit
  words. Field names that occur in more than one struct carry a suffix.
\<close>

record 't FilesystemNode =
  Type :: string
  Path :: string
  Name :: string
  Created :: 't
  Modified :: 't
  ModeStr :: string
  ModeOctal :: string
  FileSize :: "64 word"
  FileType :: string
  SHA256Sum :: string
  ID :: string
  ReadPassword :: string
  WritePassword :: string
  Properties :: "string \<rightharpoonup> string"

record Permissions =
  Create :: bool
  Read :: bool
  Update :: bool
  Delete :: bool

text \<open>\<^verbatim>\<open>BaseIndex\<close> is a Go \<^verbatim>\<open>int\<close>; it is only ever used as an index, never in arithmetic.\<close>

record 't FilesystemPath =
  Path_fsp :: "'t FilesystemNode list"
  BaseIndex :: int
  Children :: "'t FilesystemNode list"
  Permissions_fsp :: Permissions

record ApiError =
  StatusCode :: string
  Message :: string

text \<open>\<^verbatim>\<open>func (e ApiError) Error() string { return e.StatusCode }\<close>\<close>

definition ApiError_Error :: "ApiError \<Rightarrow> string" where
  "ApiError_Error e = StatusCode e"

text \<open>
  The values of Go's \<^verbatim>\<open>error\<close> interface that this file produces: the three sentinels
  declared here, the two sentinels of package \<^verbatim>\<open>fs\<close>, an \<^verbatim>\<open>ApiError\<close> value, an error
  returned by the JSON decoder (carrying its text), and the result of \<^verbatim>\<open>fmt.Errorf\<close> with
  the verb \<^verbatim>\<open>%w\<close>, which keeps the format and the error it wraps.
\<close>

datatype error =
    errNotFound
  | errExists
  | errAuthenticationFailed
  | ErrorDirectoryNotEmpty
  | ErrorPermissionDenied
  | ApiErr ApiError
  | JsonError string
  | WrapError string error

text \<open>\<^verbatim>\<open>errors.Unwrap\<close>: only a wrapping error has an underlying one.\<close>

fun Unwrap :: "error \<Rightarrow> error option" where
  "Unwrap (WrapError _ e) = Some e"
| "Unwrap _ = None"

record Response =
  Body_resp :: string

section \<open>The error mapper\<close>

text \<open>
  \<^verbatim>\<open>json.NewDecoder(resp.Body).Decode(&e)\<close> belongs to the standard library: the decoder
  is a parameter that maps the body to the contents of \<open>e\<close> after the call and to the
  error it returned (\<open>None\<close> for \<^verbatim>\<open>nil\<close>).
\<close>

type_synonym Decoder = "string \<Rightarrow> ApiError \<times> error option"

definition apiErrorHandler :: "Decoder \<Rightarrow> Response \<Rightarrow> error" where
  "apiErrorHandler Decode resp =
     (case Decode (Body_resp resp) of
        (e, Some err) \<Rightarrow> WrapError ''failed to parse error json: %w'' err
      | (e, None) \<Rightarrow>
          if StatusCode e = ''path_not_found'' then errNotFound
          else if StatusCode e = ''directory_not_empty'' then ErrorDirectoryNotEmpty
          else if StatusCode e = ''node_already_exists'' then errExists
          else if StatusCode e = ''authentication_failed'' then errAuthenticationFailed
          else if StatusCode e = ''permission_denied'' then ErrorPermissionDenied
          else ApiErr e)"

section \<open>Prefix stripping and the conversions to a handle\<close>

text \<open>
  \<^verbatim>\<open>strings.HasPrefix\<close> and \<^verbatim>\<open>strings.TrimPrefix\<close> of Go's standard library:
  \<^verbatim>\<open>HasPrefix(s, prefix)\<close> is \<^verbatim>\<open>len(s) >= len(prefix) && s[:len(prefix)] == prefix\<close>, and
  \<^verbatim>\<open>TrimPrefix(s, prefix)\<close> returns \<^verbatim>\<open>s[len(prefix):]\<close> when \<open>s\<close> has the prefix and \<open>s\<close>
  otherwise.
\<close>

definition HasPrefix :: "string \<Rightarrow> string \<Rightarrow> bool" where
  "HasPrefix s p = (length p \<le> length s \<and> take (length p) s = p)"

definition TrimPrefix :: "string \<Rightarrow> string \<Rightarrow> string" where
  "TrimPrefix s p = (if HasPrefix s p then drop (length p) s else s)"

text \<open>
  The type \<^verbatim>\<open>Fs\<close> is declared in another file of the package; of its fields, the
  conversions and the request builders read \<^verbatim>\<open>pathPrefix\<close> only. The client behind
  \<^verbatim>\<open>f.srv\<close> is a pointer, and its state is passed separately below.
\<close>

record Fs =
  pathPrefix :: string

text \<open>
  The handle. In the source \<open>base\<close> is a pointer; the handle is not mutated after its
  construction, so the model holds the node the pointer refers to.
\<close>

record 't Object =
  fs :: Fs
  base :: "'t FilesystemNode"
  path :: "'t FilesystemNode list"
  children :: "'t FilesystemNode list"

datatype panic =
    IndexOutOfRange int nat
  | InterfaceConversion string

text \<open>
  The two loops \<^verbatim>\<open>for i := range xs { xs[i].Path = strings.TrimPrefix(xs[i].Path, f.pathPrefix) }\<close>
  of \<^verbatim>\<open>pathToObject\<close> visit every element once, in order.
\<close>

fun trimPaths :: "Fs \<Rightarrow> 't FilesystemNode list \<Rightarrow> 't FilesystemNode list" where
  "trimPaths f [] = []"
| "trimPaths f (n # ns) = n\<lparr>Path := TrimPrefix (Path n) (pathPrefix f)\<rparr> # trimPaths f ns"

text \<open>
  \<^verbatim>\<open>&fsp.Path[fsp.BaseIndex]\<close> is checked by the Go runtime: an index below zero or not
  below the length panics. The panic is the \<open>Inl\<close> branch.
\<close>

definition pathToObject :: "Fs \<Rightarrow> 't FilesystemPath \<Rightarrow> panic + 't Object" where
  "pathToObject f fsp =
     (let p = trimPaths f (Path_fsp fsp);
          c = trimPaths f (Children fsp);
          i = BaseIndex fsp
      in if 0 \<le> i \<and> i < int (length p)
         then Inr \<lparr>fs = f, base = p ! nat i, path = p, children = c\<rparr>
         else Inl (IndexOutOfRange i (length p)))"

definition nodeToObject :: "Fs \<Rightarrow> 't FilesystemNode \<Rightarrow> 't Object" where
  "nodeToObject f node =
     (let node' = node\<lparr>Path := TrimPrefix (Path node) (pathPrefix f)\<rparr>
      in \<lparr>fs = f, base = node', path = [], children = []\<rparr>)"

section \<open>The remote operations\<close>

text \<open>
  \<^verbatim>\<open>url.Values\<close> is \<^verbatim>\<open>map[string][]string\<close>. A field of \<^verbatim>\<open>rest.Opts\<close> of this type
  is \<open>None\<close> when it is \<^verbatim>\<open>nil\<close>, as every field is that a literal does not set.
  \<^verbatim>\<open>Values.Set\<close> replaces the values of a key by the one given.
\<close>

type_synonym Values = "string \<rightharpoonup> string list"

definition Set :: "Values \<Rightarrow> string \<Rightarrow> string \<Rightarrow> Values" where
  "Set v k x = v(k \<mapsto> [x])"

text \<open>
  The fields of \<^verbatim>\<open>rest.Opts\<close> that this file sets. \<open>'o\<close> is \<^verbatim>\<open>fs.OpenOption\<close>; a body
  is the bytes its reader yields.
\<close>

record 'o Opts =
  Method :: string
  Path_opts :: string
  Body_opts :: "string option"
  Parameters :: "Values option"
  MultipartParams :: "Values option"
  NoResponse :: bool
  Options :: "'o list"

text \<open>
  \<^verbatim>\<open>f.srv.CallJSON\<close> belongs to another package and is a parameter: from the state \<open>'w\<close>
  of the client and the server behind it and from the options of the request it gives
  the new state, the value \<open>'r\<close> it left behind the response pointer, and the error it
  returned. \<^verbatim>\<open>url.PathEscape\<close> and \<^verbatim>\<open>time.Time.Format\<close> belong to the standard library
  and are parameters as well. Closing the body of the response changes no value that
  the operations return and is left out.
\<close>

type_synonym ('w, 'o, 'r) CallJSON = "'w \<Rightarrow> 'o Opts \<Rightarrow> 'w \<times> 'r \<times> error option"

definition put_opts :: "(string \<Rightarrow> string) \<Rightarrow> string \<Rightarrow> string \<Rightarrow> 'o list \<Rightarrow> 'o Opts" where
  "put_opts PathEscape path_arg body options =
     \<lparr>Method = ''PUT'',
      Path_opts = PathEscape path_arg,
      Body_opts = Some body,
      Parameters = Some [''make_parents'' \<mapsto> [''true'']],
      MultipartParams = None,
      NoResponse = False,
      Options = options\<rparr>"

definition put ::
  "('w, 'o, 't FilesystemNode) CallJSON \<Rightarrow> (string \<Rightarrow> string) \<Rightarrow> 'w \<Rightarrow> string \<Rightarrow> string \<Rightarrow> 'o list
     \<Rightarrow> 'w \<times> 't FilesystemNode \<times> error option" where
  "put CallJSON PathEscape w path_arg body options =
     (case CallJSON w (put_opts PathEscape path_arg body options) of
        (w', node, err) \<Rightarrow> (w', node, err))"

text \<open>
  The values of \<^verbatim>\<open>map[string]any\<close> that \<^verbatim>\<open>update\<close> looks at: a \<^verbatim>\<open>time.Time\<close>, or a value
  of another dynamic type (named by the string; \<^verbatim>\<open>nil\<close> included). The type assertion
  \<^verbatim>\<open>x.(time.Time)\<close> with one result panics on the latter.
\<close>

datatype 't any = TimeVal 't | OtherVal string

fun assertTime :: "'t any \<Rightarrow> panic + 't" where
  "assertTime (TimeVal t) = Inr t"
| "assertTime (OtherVal ty) = Inl (InterfaceConversion ty)"

definition RFC3339Nano :: string where
  "RFC3339Nano = ''2006-01-02T15:04:05.999999999Z07:00''"

text \<open>One \<^verbatim>\<open>if v, ok := fields[k]; ok { params.Set(k, v.(time.Time).Format(time.RFC3339Nano)) }\<close>.\<close>

definition setTime ::
  "('t \<Rightarrow> string \<Rightarrow> string) \<Rightarrow> (string \<rightharpoonup> 't any) \<Rightarrow> string \<Rightarrow> Values \<Rightarrow> panic + Values" where
  "setTime Format fields_arg k params =
     (case fields_arg k of
        None \<Rightarrow> Inr params
      | Some v \<Rightarrow>
          (case assertTime v of
             Inl p \<Rightarrow> Inl p
           | Inr t \<Rightarrow> Inr (Set params k (Format t RFC3339Nano))))"

definition update_params ::
  "('t \<Rightarrow> string \<Rightarrow> string) \<Rightarrow> (string \<rightharpoonup> 't any) \<Rightarrow> panic + Values" where
  "update_params Format fields_arg =
     (let params = Set Map.empty ''action'' ''update''
      in case setTime Format fields_arg ''created'' params of
           Inl p \<Rightarrow> Inl p
         | Inr params' \<Rightarrow> setTime Format fields_arg ''modified'' params')"

definition update_opts :: "(string \<Rightarrow> string) \<Rightarrow> string \<Rightarrow> Values \<Rightarrow> 'o Opts" where
  "update_opts PathEscape path_arg params =
     \<lparr>Method = ''POST'',
      Path_opts = PathEscape path_arg,
      Body_opts = None,
      Parameters = None,
      MultipartParams = Some params,
      NoResponse = False,
      Options = []\<rparr>"

definition update ::
  "('w, 'o, 'u FilesystemNode) CallJSON \<Rightarrow> ('t \<Rightarrow> string \<Rightarrow> string) \<Rightarrow> (string \<Rightarrow> string) \<Rightarrow> 'w
     \<Rightarrow> string \<Rightarrow> (string \<rightharpoonup> 't any) \<Rightarrow> panic + 'w \<times> 'u FilesystemNode \<times> error option" where
  "update CallJSON Format PathEscape w path_arg fields_arg =
     (case update_params Format fields_arg of
        Inl p \<Rightarrow> Inl p
      | Inr params \<Rightarrow>
          (case CallJSON w (update_opts PathEscape path_arg params) of
             (w', node, err) \<Rightarrow> Inr (w', node, err)))"

definition rename_opts :: "(string \<Rightarrow> string) \<Rightarrow> Fs \<Rightarrow> string \<Rightarrow> string \<Rightarrow> 'o Opts" where
  "rename_opts PathEscape f from to =
     \<lparr>Method = ''POST'',
      Path_opts = PathEscape from,
      Body_opts = None,
      Parameters = None,
      MultipartParams = Some [''action'' \<mapsto> [''rename''], ''target'' \<mapsto> [pathPrefix f @ to]],
      NoResponse = True,
      Options = []\<rparr>"

definition rename ::
  "('w, 'o, 'r) CallJSON \<Rightarrow> (string \<Rightarrow> string) \<Rightarrow> Fs \<Rightarrow> 'w \<Rightarrow> string \<Rightarrow> string \<Rightarrow> 'w \<times> error option" where
  "rename CallJSON PathEscape f w from to =
     (case CallJSON w (rename_opts PathEscape f from to) of (w', _, err) \<Rightarrow> (w', err))"

definition delete_opts :: "(string \<Rightarrow> string) \<Rightarrow> string \<Rightarrow> bool \<Rightarrow> 'o Opts" where
  "delete_opts PathEscape path_arg recursive =
     (let params = (if recursive then Some [''recursive'' \<mapsto> [''true'']] else None)
      in \<lparr>Method = ''DELETE'',
          Path_opts = PathEscape path_arg,
          Body_opts = None,
          Parameters = params,
          MultipartParams = None,
          NoResponse = True,
          Options = []\<rparr>)"

definition delete ::
  "('w, 'o, 'r) CallJSON \<Rightarrow> (string \<Rightarrow> string) \<Rightarrow> 'w \<Rightarrow> string \<Rightarrow> bool \<Rightarrow> 'w \<times> error option" where
  "delete CallJSON PathEscape w path_arg recursive =
     (case CallJSON w (delete_opts PathEscape path_arg recursive) of (w', _, err) \<Rightarrow> (w', err))"

text \<open>
  Whether a request carries a parameter: \<^verbatim>\<open>Values.Has\<close> and the values of a key, on a
  field that may be \<^verbatim>\<open>nil\<close> (a \<^verbatim>\<open>nil\<close> map has no key).
\<close>

definition Has :: "Values option \<Rightarrow> string \<Rightarrow> bool" where
  "Has v k = (case v of None \<Rightarrow> False | Some m \<Rightarrow> m k \<noteq> None)"

definition values_of :: "Values option \<Rightarrow> string \<Rightarrow> string list" where
  "values_of v k = (case v of None \<Rightarrow> [] | Some m \<Rightarrow> (case m k of None \<Rightarrow> [] | Some xs \<Rightarrow> xs))"

text \<open>
  A client that records the requests it is given and answers every one with the same
  value and no error, and a node with a given path, for the concrete instances below.
\<close>

definition recording :: "'r \<Rightarrow> ('o Opts list, 'o, 'r) CallJSON" where
  "recording r w opts = (w @ [opts], r, None)"

definition node_at :: "string \<Rightarrow> unit FilesystemNode" where
  "node_at p =
     \<lparr>Type = ''file'', Path = p, Name = '''', Created = (), Modified = (),
      ModeStr = '''', ModeOctal = '''', FileSize = 0, FileType = '''', SHA256Sum = '''',
      ID = '''', ReadPassword = '''', WritePassword = '''', Properties = Map.empty\<rparr>"

definition fsp_of :: "string list \<Rightarrow> int \<Rightarrow> string list \<Rightarrow> unit FilesystemPath" where
  "fsp_of ps i cs =
     \<lparr>Path_fsp = map node_at ps, BaseIndex = i, Children = map node_at cs,
      Permissions_fsp = \<lparr>Create = True, Read = True, Update = True, Delete = True\<rparr>\<rparr>"

text \<open>
  Two decoders for the concrete instances: one that succeeds and reads the whole body as
  the code, and one that fails on every body.
\<close>

definition decode_as_code :: Decoder where
  "decode_as_code b = (\<lparr>StatusCode = b, Message = ''human text''\<rparr>, None)"

definition decode_fails :: Decoder where
  "decode_fails b = (\<lparr>StatusCode = '''', Message = ''''\<rparr>, Some (JsonError ''unexpected EOF''))"

text \<open>
  A formatter for the concrete instances, on times counted in nanoseconds since the epoch
  (only the instants \<open>0\<close> and \<open>1\<close> are used).
\<close>

definition fmt :: "nat \<Rightarrow> string \<Rightarrow> string" where
  "fmt t layout = (if t = 0 then ''1970-01-01T00:00:00Z'' else ''1970-01-01T00:00:00.000000001Z'')"

section \<open>Properties of the error mapper\<close>

text \<open>
  C1. For every decoded error payload the mapper returns the kind its code names:
  \<open>path_not_found\<close> gives NotFound, \<open>directory_not_empty\<close> gives DirectoryNotEmpty,
  \<open>node_already_exists\<close> gives AlreadyExists, \<open>authentication_failed\<close> gives
  AuthenticationFailed, \<open>permission_denied\<close> gives PermissionDenied, and every other code
  gives the opaque error that holds the code and the message unchanged.
\<close>

theorem apiErrorHandler_kinds:
  assumes "Decode (Body_resp resp) = (\<lparr>StatusCode = c, Message = m\<rparr>, None)"
  shows "(c = ''path_not_found'' \<longrightarrow> apiErrorHandler Decode resp = errNotFound)
       \<and> (c = ''directory_not_empty'' \<longrightarrow> apiErrorHandler Decode resp = ErrorDirectoryNotEmpty)
       \<and> (c = ''node_already_exists'' \<longrightarrow> apiErrorHandler Decode resp = errExists)
       \<and> (c = ''authentication_failed'' \<longrightarrow> apiErrorHandler Decode resp = errAuthenticationFailed)
       \<and> (c = ''permission_denied'' \<longrightarrow> apiErrorHandler Decode resp = ErrorPermissionDenied)
       \<and> (c \<notin> {''path_not_found'', ''directory_not_empty'', ''node_already_exists'',
                ''authentication_failed'', ''permission_denied''}
            \<longrightarrow> apiErrorHandler Decode resp = ApiErr \<lparr>StatusCode = c, Message = m\<rparr>)"
  using assms by (simp add: apiErrorHandler_def)

theorem apiErrorHandler_kinds_witness:
  "apiErrorHandler decode_as_code \<lparr>Body_resp = ''path_not_found''\<rparr> = errNotFound
   \<and> apiErrorHandler decode_as_code \<lparr>Body_resp = ''directory_not_empty''\<rparr> = ErrorDirectoryNotEmpty
   \<and> apiErrorHandler decode_as_code \<lparr>Body_resp = ''node_already_exists''\<rparr> = errExists
   \<and> apiErrorHandler decode_as_code \<lparr>Body_resp = ''authentication_failed''\<rparr> = errAuthenticationFailed
   \<and> apiErrorHandler decode_as_code \<lparr>Body_resp = ''permission_denied''\<rparr> = ErrorPermissionDenied
   \<and> apiErrorHandler decode_as_code \<lparr>Body_resp = ''internal''\<rparr>
       = ApiErr \<lparr>StatusCode = ''internal'', Message = ''human text''\<rparr>"
  using apiErrorHandler_kinds [of decode_as_code "\<lparr>Body_resp = ''path_not_found''\<rparr>" "''path_not_found''" "''human text''"]
    apiErrorHandler_kinds [of decode_as_code "\<lparr>Body_resp = ''directory_not_empty''\<rparr>" "''directory_not_empty''" "''human text''"]
    apiErrorHandler_kinds [of decode_as_code "\<lparr>Body_resp = ''node_already_exists''\<rparr>" "''node_already_exists''" "''human text''"]
    apiErrorHandler_kinds [of decode_as_code "\<lparr>Body_resp = ''authentication_failed''\<rparr>" "''authentication_failed''" "''human text''"]
    apiErrorHandler_kinds [of decode_as_code "\<lparr>Body_resp = ''permission_denied''\<rparr>" "''permission_denied''" "''human text''"]
    apiErrorHandler_kinds [of decode_as_code "\<lparr>Body_resp = ''internal''\<rparr>" "''internal''" "''human text''"]
  by (simp add: decode_as_code_def)

text \<open>
  C7. When the body of the failed response cannot be decoded, the mapper returns the
  error that wraps the decoder's error: it is none of the five semantic kinds and not the
  opaque error, and unwrapping it gives the decoder's error back.
\<close>

theorem apiErrorHandler_decode_failure:
  assumes "Decode (Body_resp resp) = (e, Some err)"
  shows "apiErrorHandler Decode resp = WrapError ''failed to parse error json: %w'' err
       \<and> Unwrap (apiErrorHandler Decode resp) = Some err
       \<and> apiErrorHandler Decode resp \<notin> {errNotFound, ErrorDirectoryNotEmpty, errExists,
             errAuthenticationFailed, ErrorPermissionDenied}
       \<and> (\<forall>a. apiErrorHandler Decode resp \<noteq> ApiErr a)"
  using assms by (simp add: apiErrorHandler_def)

theorem apiErrorHandler_decode_failure_witness:
  "apiErrorHandler decode_fails \<lparr>Body_resp = ''<html>''\<rparr>
     = WrapError ''failed to parse error json: %w'' (JsonError ''unexpected EOF'')
   \<and> Unwrap (apiErrorHandler decode_fails \<lparr>Body_resp = ''<html>''\<rparr>) = Some (JsonError ''unexpected EOF'')"
  using apiErrorHandler_decode_failure [of decode_fails "\<lparr>Body_resp = ''<html>''\<rparr>"
      "\<lparr>StatusCode = '''', Message = ''''\<rparr>" "JsonError ''unexpected EOF''"]
  by (simp add: decode_fails_def)

text \<open>
  C10. For a code that is none of the five known ones the mapper returns the opaque
  error: it holds the code and the message as fields, yet its \<^verbatim>\<open>Error\<close> string is the
  code alone and is the same whatever the message is.
\<close>

theorem apiErrorHandler_opaque_rendering:
  assumes "Decode (Body_resp resp) = (\<lparr>StatusCode = c, Message = m\<rparr>, None)"
    and "c \<notin> {''path_not_found'', ''directory_not_empty'', ''node_already_exists'',
               ''authentication_failed'', ''permission_denied''}"
  shows "\<exists>e. apiErrorHandler Decode resp = ApiErr e
           \<and> StatusCode e = c \<and> Message e = m
           \<and> ApiError_Error e = c
           \<and> (\<forall>m'. ApiError_Error (e\<lparr>Message := m'\<rparr>) = ApiError_Error e)"
  using assms by (simp add: apiErrorHandler_def ApiError_Error_def)

theorem apiErrorHandler_opaque_rendering_witness:
  "\<exists>e. apiErrorHandler decode_as_code \<lparr>Body_resp = ''internal''\<rparr> = ApiErr e
     \<and> StatusCode e = ''internal'' \<and> Message e = ''human text''
     \<and> ApiError_Error e = ''internal''"
  using apiErrorHandler_opaque_rendering [of decode_as_code "\<lparr>Body_resp = ''internal''\<rparr>" "''internal''" "''human text''"]
  by (auto simp: decode_as_code_def)

section \<open>Properties of prefix stripping\<close>

lemma HasPrefix_iff_prefix: "HasPrefix s p \<longleftrightarrow> prefix p s"
  unfolding HasPrefix_def prefix_def
  by (metis append_eq_conv_conj append_take_drop_id le_add1 length_append)

lemma HasPrefix_append: "HasPrefix (p @ x) p"
  by (simp add: HasPrefix_def)

lemma TrimPrefix_append: "TrimPrefix (p @ x) p = x"
  by (simp add: TrimPrefix_def HasPrefix_append)

lemma TrimPrefix_no_prefix: "\<not> HasPrefix s p \<Longrightarrow> TrimPrefix s p = s"
  by (simp add: TrimPrefix_def)

lemma TrimPrefix_twice_iff:
  "TrimPrefix (TrimPrefix s p) p = TrimPrefix s p \<longleftrightarrow> p = [] \<or> \<not> HasPrefix (TrimPrefix s p) p"
proof (cases "HasPrefix (TrimPrefix s p) p")
  case False
  then show ?thesis by (simp add: TrimPrefix_no_prefix)
next
  case True
  let ?t = "TrimPrefix s p"
  have eq: "TrimPrefix ?t p = drop (length p) ?t"
    using True by (simp add: TrimPrefix_def)
  have len: "length p \<le> length ?t"
    using True by (simp add: HasPrefix_def)
  show ?thesis
  proof (cases "p = []")
    case True
    then show ?thesis by (simp add: TrimPrefix_def)
  next
    case False
    then have pos: "Suc 0 \<le> length p" by (cases p) simp_all
    have "length (drop (length p) ?t) = length ?t - length p" by simp
    then have "length (drop (length p) ?t) < length ?t"
      using len pos by linarith
    then have "drop (length p) ?t \<noteq> ?t" by (metis less_irrefl)
    with False True eq show ?thesis by simp
  qed
qed

lemma HasPrefix_TrimPrefix_iff:
  "HasPrefix (TrimPrefix s p) p \<longleftrightarrow> HasPrefix s (p @ p)"
proof (cases "HasPrefix s p")
  case True
  then obtain x where s: "s = p @ x"
    by (auto simp: HasPrefix_iff_prefix prefix_def)
  show ?thesis
    by (simp add: s TrimPrefix_append HasPrefix_iff_prefix)
next
  case False
  then have "\<not> HasPrefix s (p @ p)"
    by (auto simp: HasPrefix_iff_prefix prefix_def)
  with False show ?thesis by (simp add: TrimPrefix_no_prefix)
qed

text \<open>
  C3 (as amended). Stripping \<open>P\<close> from \<open>P + X\<close> gives \<open>X\<close>, and stripping \<open>P\<close> from a
  string that does not start with \<open>P\<close> leaves it unchanged. One occurrence of the prefix
  is removed, so stripping a second time changes nothing exactly when \<open>P\<close> is empty or
  the string stripped once no longer starts with \<open>P\<close>. This is the function that
  \<^verbatim>\<open>nodeToObject\<close> and the loops of \<^verbatim>\<open>pathToObject\<close> apply, with the configured prefix, to
  the path of a node.
\<close>

theorem TrimPrefix_strip:
  "TrimPrefix (P @ X) P = X
   \<and> (\<not> HasPrefix S P \<longrightarrow> TrimPrefix S P = S)
   \<and> (TrimPrefix (TrimPrefix S P) P = TrimPrefix S P \<longleftrightarrow> P = [] \<or> \<not> HasPrefix (TrimPrefix S P) P)
   \<and> Path (base (nodeToObject f node)) = TrimPrefix (Path node) (pathPrefix f)
   \<and> map Path (trimPaths f nodes) = map (\<lambda>n. TrimPrefix (Path n) (pathPrefix f)) nodes"
proof -
  have "Path (base (nodeToObject f node)) = TrimPrefix (Path node) (pathPrefix f)"
    by (simp add: nodeToObject_def)
  moreover have "map Path (trimPaths f nodes) = map (\<lambda>n. TrimPrefix (Path n) (pathPrefix f)) nodes"
    by (induction nodes) simp_all
  ultimately show ?thesis
    using TrimPrefix_append TrimPrefix_no_prefix TrimPrefix_twice_iff by blast
qed

theorem TrimPrefix_strip_witness:
  "TrimPrefix (''/u/123'' @ ''/a/b/c.txt'') ''/u/123'' = ''/a/b/c.txt''
   \<and> \<not> HasPrefix ''/v/9/a'' ''/u/123'' \<and> TrimPrefix ''/v/9/a'' ''/u/123'' = ''/v/9/a''
   \<and> \<not> HasPrefix (TrimPrefix ''/u/123/a'' ''/u/123'') ''/u/123''
   \<and> TrimPrefix (TrimPrefix ''/u/123/a'' ''/u/123'') ''/u/123'' = TrimPrefix ''/u/123/a'' ''/u/123''
   \<and> Path (base (nodeToObject \<lparr>pathPrefix = ''/u/123''\<rparr> (node_at ''/u/123/a''))) = ''/a''"
proof -
  have a: "\<not> HasPrefix ''/v/9/a'' ''/u/123''" by (simp add: HasPrefix_def)
  have b: "\<not> HasPrefix (TrimPrefix ''/u/123/a'' ''/u/123'') ''/u/123''"
    by (simp add: HasPrefix_def TrimPrefix_def)
  have c: "TrimPrefix ''/u/123/a'' ''/u/123'' = ''/a''"
    by (simp add: HasPrefix_def TrimPrefix_def)
  show ?thesis
    using a b c TrimPrefix_strip [of "''/u/123''" "''/a/b/c.txt''" "''/v/9/a''" "\<lparr>pathPrefix = ''/u/123''\<rparr>" "node_at ''/u/123/a''" "[]"]
      TrimPrefix_strip [of "''/u/123''" "''/a/b/c.txt''" "''/u/123/a''" "\<lparr>pathPrefix = ''/u/123''\<rparr>" "node_at ''/u/123/a''" "[]"]
    by (simp add: node_at_def)
qed

theorem TrimPrefix_idempotent_counterexample:
  "TrimPrefix (TrimPrefix ''/a/a/b'' ''/a'') ''/a'' \<noteq> TrimPrefix ''/a/a/b'' ''/a''
   \<and> Path (base (nodeToObject \<lparr>pathPrefix = ''/a''\<rparr> (node_at ''/a/a/b''))) = ''/a/b''
   \<and> Path (base (nodeToObject \<lparr>pathPrefix = ''/a''\<rparr>
        (base (nodeToObject \<lparr>pathPrefix = ''/a''\<rparr> (node_at ''/a/a/b''))))) = ''/b''"
  by (simp add: nodeToObject_def node_at_def TrimPrefix_def HasPrefix_def)

section \<open>Properties of the conversion to a handle\<close>

lemma trimPaths_map:
  "trimPaths f ns = map (\<lambda>n. n\<lparr>Path := TrimPrefix (Path n) (pathPrefix f)\<rparr>) ns"
  by (induction ns) simp_all

lemma length_trimPaths: "length (trimPaths f ns) = length ns"
  by (simp add: trimPaths_map)

lemma pathToObject_in_range:
  assumes "0 \<le> BaseIndex fsp" and "BaseIndex fsp < int (length (Path_fsp fsp))"
  shows "pathToObject f fsp =
           Inr \<lparr>fs = f, base = trimPaths f (Path_fsp fsp) ! nat (BaseIndex fsp),
                path = trimPaths f (Path_fsp fsp), children = trimPaths f (Children fsp)\<rparr>"
  using assms by (simp add: pathToObject_def Let_def length_trimPaths)

lemma pathToObject_out_of_range:
  assumes "\<not> (0 \<le> BaseIndex fsp \<and> BaseIndex fsp < int (length (Path_fsp fsp)))"
  shows "pathToObject f fsp = Inl (IndexOutOfRange (BaseIndex fsp) (length (Path_fsp fsp)))"
  using assms by (simp add: pathToObject_def Let_def length_trimPaths)

text \<open>
  C2 (as amended). For every response whose \<open>base_index\<close> lies within its path sequence the
  conversion gives a handle whose base is the element of the handle's path sequence at
  \<open>base_index\<close>, and whose path and children sequences are those of the response with one
  leading occurrence of the configured prefix removed from the path of every node. A node
  still starts with the prefix afterwards exactly when its path in the response started
  with the prefix twice over.
\<close>

theorem pathToObject_base_and_paths:
  assumes "0 \<le> BaseIndex fsp" and "BaseIndex fsp < int (length (Path_fsp fsp))"
  shows "\<exists>obj. pathToObject f fsp = Inr obj
           \<and> base obj = path obj ! nat (BaseIndex fsp)
           \<and> path obj = map (\<lambda>n. n\<lparr>Path := TrimPrefix (Path n) (pathPrefix f)\<rparr>) (Path_fsp fsp)
           \<and> children obj = map (\<lambda>n. n\<lparr>Path := TrimPrefix (Path n) (pathPrefix f)\<rparr>) (Children fsp)
           \<and> (\<forall>n \<in> set (Path_fsp fsp) \<union> set (Children fsp).
                 HasPrefix (TrimPrefix (Path n) (pathPrefix f)) (pathPrefix f)
                   \<longleftrightarrow> HasPrefix (Path n) (pathPrefix f @ pathPrefix f))"
  using pathToObject_in_range [OF assms, of f]
  by (simp add: trimPaths_map HasPrefix_TrimPrefix_iff)

theorem pathToObject_base_and_paths_witness:
  "\<exists>obj. pathToObject \<lparr>pathPrefix = ''/u/123''\<rparr>
            (fsp_of [''/u/123/a'', ''/u/123/a/b'', ''/u/123/a/b/c.txt''] 2 [''/u/123/a/b/c.txt/x'']) = Inr obj
     \<and> base obj = node_at ''/a/b/c.txt''
     \<and> path obj = [node_at ''/a'', node_at ''/a/b'', node_at ''/a/b/c.txt'']
     \<and> children obj = [node_at ''/a/b/c.txt/x'']"
  using pathToObject_base_and_paths [of
      "fsp_of [''/u/123/a'', ''/u/123/a/b'', ''/u/123/a/b/c.txt''] 2 [''/u/123/a/b/c.txt/x'']"
      "\<lparr>pathPrefix = ''/u/123''\<rparr>"]
  by (auto simp: fsp_of_def node_at_def TrimPrefix_def HasPrefix_def)

theorem pathToObject_prefix_counterexample:
  "pathToObject \<lparr>pathPrefix = ''/a''\<rparr> (fsp_of [''/a/a/b''] 0 [])
     = Inr \<lparr>fs = \<lparr>pathPrefix = ''/a''\<rparr>, base = node_at ''/a/b'', path = [node_at ''/a/b''], children = []\<rparr>
   \<and> HasPrefix (Path (node_at ''/a/b'')) ''/a''"
  by (simp add: pathToObject_def fsp_of_def node_at_def TrimPrefix_def HasPrefix_def)

text \<open>
  C9. The conversion indexes the path sequence at \<open>base_index\<close> with no check of its own.
  When \<open>0 \<le> base_index < len(path)\<close> the index is in bounds and a handle is returned; for
  every other input, the empty path sequence among them, the conversion panics with the
  index out of range.
\<close>

theorem pathToObject_bounds:
  "(0 \<le> BaseIndex fsp \<and> BaseIndex fsp < int (length (Path_fsp fsp))
      \<longrightarrow> (\<exists>obj. pathToObject f fsp = Inr obj \<and> nat (BaseIndex fsp) < length (path obj)
                 \<and> base obj = path obj ! nat (BaseIndex fsp)))
   \<and> (\<not> (0 \<le> BaseIndex fsp \<and> BaseIndex fsp < int (length (Path_fsp fsp)))
      \<longrightarrow> pathToObject f fsp = Inl (IndexOutOfRange (BaseIndex fsp) (length (Path_fsp fsp))))
   \<and> (Path_fsp fsp = [] \<longrightarrow> pathToObject f fsp = Inl (IndexOutOfRange (BaseIndex fsp) 0))"
proof (intro conjI impI)
  assume "0 \<le> BaseIndex fsp \<and> BaseIndex fsp < int (length (Path_fsp fsp))"
  then show "\<exists>obj. pathToObject f fsp = Inr obj \<and> nat (BaseIndex fsp) < length (path obj)
                 \<and> base obj = path obj ! nat (BaseIndex fsp)"
    by (simp add: pathToObject_in_range length_trimPaths nat_less_iff)
next
  assume "\<not> (0 \<le> BaseIndex fsp \<and> BaseIndex fsp < int (length (Path_fsp fsp)))"
  then show "pathToObject f fsp = Inl (IndexOutOfRange (BaseIndex fsp) (length (Path_fsp fsp)))"
    by (rule pathToObject_out_of_range)
next
  assume "Path_fsp fsp = []"
  then show "pathToObject f fsp = Inl (IndexOutOfRange (BaseIndex fsp) 0)"
    by (simp add: pathToObject_out_of_range)
qed

theorem pathToObject_bounds_witness:
  "(\<exists>obj. pathToObject \<lparr>pathPrefix = ''/u''\<rparr> (fsp_of [''/u/a'', ''/u/a/b''] 1 []) = Inr obj
       \<and> base obj = path obj ! 1)
   \<and> pathToObject \<lparr>pathPrefix = ''/u''\<rparr> (fsp_of [''/u/a'', ''/u/a/b''] 2 []) = Inl (IndexOutOfRange 2 2)
   \<and> pathToObject \<lparr>pathPrefix = ''/u''\<rparr> (fsp_of [''/u/a'', ''/u/a/b''] (- 1) []) = Inl (IndexOutOfRange (- 1) 2)
   \<and> pathToObject \<lparr>pathPrefix = ''/u''\<rparr> (fsp_of [] 0 []) = Inl (IndexOutOfRange 0 0)"
  using pathToObject_bounds [of "fsp_of [''/u/a'', ''/u/a/b''] 1 []" "\<lparr>pathPrefix = ''/u''\<rparr>"]
    pathToObject_bounds [of "fsp_of [''/u/a'', ''/u/a/b''] 2 []" "\<lparr>pathPrefix = ''/u''\<rparr>"]
    pathToObject_bounds [of "fsp_of [''/u/a'', ''/u/a/b''] (- 1) []" "\<lparr>pathPrefix = ''/u''\<rparr>"]
    pathToObject_bounds [of "fsp_of [] 0 []" "\<lparr>pathPrefix = ''/u''\<rparr>"]
  by (auto simp: fsp_of_def)

section \<open>Properties of the requests\<close>

text \<open>
  C8. Every call of \<^verbatim>\<open>put\<close> issues one request, and whatever the arguments are its query
  parameters are exactly \<open>make_parents=true\<close>: no argument can switch the flag off.
\<close>

theorem put_make_parents:
  "put CallJSON PathEscape w path_arg body options
     = CallJSON w (put_opts PathEscape path_arg body options)
   \<and> Method (put_opts PathEscape path_arg body options) = ''PUT''
   \<and> Parameters (put_opts PathEscape path_arg body options) = Some [''make_parents'' \<mapsto> [''true'']]
   \<and> Has (Parameters (put_opts PathEscape path_arg body options)) ''make_parents''
   \<and> values_of (Parameters (put_opts PathEscape path_arg body options)) ''make_parents'' = [''true'']"
  by (simp add: put_def put_opts_def Has_def values_of_def split: prod.split)

theorem put_make_parents_witness:
  "\<exists>opts. fst (put (recording (node_at ''/u/a'')) id [] ''/u/a'' ''content'' ([] :: unit list)) = [opts]
     \<and> values_of (Parameters opts) ''make_parents'' = [''true'']"
  using put_make_parents [of "recording (node_at ''/u/a'')" id "[]" "''/u/a''" "''content''" "[] :: unit list"]
  by (auto simp: recording_def)

text \<open>
  C5. Every call of \<^verbatim>\<open>rename\<close> with source \<open>from\<close> and destination \<open>to\<close> issues one request
  whose form parameter \<open>target\<close> is the configured prefix followed by \<open>to\<close>, and whose path is
  the escaped \<open>from\<close> alone, with no prefix put before it.
\<close>

theorem rename_target_and_path:
  "rename CallJSON PathEscape f w from to
     = (case CallJSON w (rename_opts PathEscape f from to) of (w', r, err) \<Rightarrow> (w', err))
   \<and> values_of (MultipartParams (rename_opts PathEscape f from to)) ''target'' = [pathPrefix f @ to]
   \<and> values_of (MultipartParams (rename_opts PathEscape f from to)) ''action'' = [''rename'']
   \<and> Path_opts (rename_opts PathEscape f from to) = PathEscape from"
  by (simp add: rename_def rename_opts_def values_of_def)

theorem rename_target_and_path_witness:
  "\<exists>opts. fst (rename (recording ()) id \<lparr>pathPrefix = ''/u/123''\<rparr> [] ''/a/old'' ''/a/new'') = [opts :: unit Opts]
     \<and> values_of (MultipartParams opts) ''target'' = [''/u/123/a/new'']
     \<and> Path_opts opts = ''/a/old''"
  using rename_target_and_path [of "recording ()" id "\<lparr>pathPrefix = ''/u/123''\<rparr>" "[] :: unit Opts list" "''/a/old''" "''/a/new''"]
  by (auto simp: recording_def)

text \<open>
  C6. Every call of \<^verbatim>\<open>delete\<close> issues one request. With \<open>recursive\<close> false it has no query
  parameters at all (the field is \<^verbatim>\<open>nil\<close>), so no \<open>recursive\<close> parameter, not even one with
  the value \<open>false\<close>; with \<open>recursive\<close> true it carries \<open>recursive=true\<close>.
\<close>

theorem delete_recursive_flag:
  "delete CallJSON PathEscape w path_arg recursive
     = (case CallJSON w (delete_opts PathEscape path_arg recursive) of (w', r, err) \<Rightarrow> (w', err))
   \<and> (Has (Parameters (delete_opts PathEscape path_arg recursive)) ''recursive'' \<longleftrightarrow> recursive)
   \<and> Parameters (delete_opts PathEscape path_arg False) = None
   \<and> values_of (Parameters (delete_opts PathEscape path_arg False)) ''recursive'' = []
   \<and> Parameters (delete_opts PathEscape path_arg True) = Some [''recursive'' \<mapsto> [''true'']]
   \<and> values_of (Parameters (delete_opts PathEscape path_arg True)) ''recursive'' = [''true'']"
  by (simp add: delete_def delete_opts_def Has_def values_of_def)

theorem delete_recursive_flag_witness:
  "(\<exists>opts. fst (delete (recording ()) id [] ''/a/dir'' False) = [opts :: unit Opts]
       \<and> \<not> Has (Parameters opts) ''recursive'')
   \<and> (\<exists>opts. fst (delete (recording ()) id [] ''/a/dir'' True) = [opts :: unit Opts]
       \<and> Has (Parameters opts) ''recursive''
       \<and> values_of (Parameters opts) ''recursive'' = [''true''])"
  using delete_recursive_flag [of "recording ()" id "[] :: unit Opts list" "''/a/dir''" False]
    delete_recursive_flag [of "recording ()" id "[] :: unit Opts list" "''/a/dir''" True]
  by (auto simp: recording_def)

subsection \<open>The form parameters of update\<close>

lemma setTime_absent: "fields_arg k = None \<Longrightarrow> setTime Format fields_arg k params = Inr params"
  by (simp add: setTime_def)

lemma setTime_time:
  "fields_arg k = Some (TimeVal t)
     \<Longrightarrow> setTime Format fields_arg k params = Inr (params(k \<mapsto> [Format t RFC3339Nano]))"
  by (simp add: setTime_def Set_def)

lemma setTime_other:
  "fields_arg k = Some (OtherVal ty)
     \<Longrightarrow> setTime Format fields_arg k params = Inl (InterfaceConversion ty)"
  by (simp add: setTime_def)

lemma update_params_times:
  assumes "\<forall>k \<in> {''created'', ''modified''}. \<forall>ty. fields_arg k \<noteq> Some (OtherVal ty)"
  shows "update_params Format fields_arg =
           Inr (\<lambda>k. if k = ''action'' then Some [''update'']
                    else if k = ''created'' \<or> k = ''modified''
                      then (case fields_arg k of Some (TimeVal t) \<Rightarrow> Some [Format t RFC3339Nano] | _ \<Rightarrow> None)
                    else None)"
proof -
  have c: "fields_arg ''created'' = None \<or> (\<exists>t. fields_arg ''created'' = Some (TimeVal t))"
    using assms by (cases "fields_arg ''created''") (auto intro: any.exhaust)
  have m: "fields_arg ''modified'' = None \<or> (\<exists>t. fields_arg ''modified'' = Some (TimeVal t))"
    using assms by (cases "fields_arg ''modified''") (auto intro: any.exhaust)
  from c m show ?thesis
    by (auto simp: update_params_def Let_def Set_def setTime_absent setTime_time fun_eq_iff)
qed

lemma update_params_panics:
  "(\<exists>p. update_params Format fields_arg = Inl p)
     \<longleftrightarrow> (\<exists>k \<in> {''created'', ''modified''}. \<exists>ty. fields_arg k = Some (OtherVal ty))"
proof (cases "\<exists>k \<in> {''created'', ''modified''}. \<exists>ty. fields_arg k = Some (OtherVal ty)")
  case False
  then show ?thesis using update_params_times [of fields_arg Format] by auto
next
  case True
  have "\<exists>p. update_params Format fields_arg = Inl p"
  proof (cases "\<exists>ty. fields_arg ''created'' = Some (OtherVal ty)")
    case True
    then show ?thesis by (auto simp: update_params_def Let_def setTime_other)
  next
    case False
    with \<open>\<exists>k \<in> {''created'', ''modified''}. \<exists>ty. fields_arg k = Some (OtherVal ty)\<close>
    obtain ty where m: "fields_arg ''modified'' = Some (OtherVal ty)" by auto
    have "fields_arg ''created'' = None \<or> (\<exists>t. fields_arg ''created'' = Some (TimeVal t))"
      using False by (cases "fields_arg ''created''") (auto intro: any.exhaust)
    then show ?thesis
      using m by (auto simp: update_params_def Let_def setTime_other setTime_absent setTime_time)
  qed
  with True show ?thesis by simp
qed

text \<open>
  C4 (as amended). For every call of \<^verbatim>\<open>update\<close> whose \<open>created\<close> and \<open>modified\<close> values, where supplied, are
  times, one request is issued; its form parameters hold \<open>created\<close> (and likewise
  \<open>modified\<close>) if and only if the caller supplied it, with the time formatted by the layout
  \<^verbatim>\<open>time.RFC3339Nano\<close> as its single value, and hold nothing but these and \<open>action\<close>. With
  only \<open>modified\<close> supplied the parameters are \<open>action\<close> and \<open>modified\<close>, and \<open>created\<close> is absent
  rather than empty.
\<close>

theorem update_timestamp_fields:
  assumes "\<forall>k \<in> {''created'', ''modified''}. \<forall>ty. fields_arg k \<noteq> Some (OtherVal ty)"
  shows "\<exists>params.
           update CallJSON Format PathEscape w path_arg fields_arg
             = Inr (CallJSON w (update_opts PathEscape path_arg params))
         \<and> MultipartParams (update_opts PathEscape path_arg params :: 'o Opts) = Some params
         \<and> params ''action'' = Some [''update'']
         \<and> dom params \<subseteq> {''action'', ''created'', ''modified''}
         \<and> (''created'' \<in> dom params \<longleftrightarrow> ''created'' \<in> dom fields_arg)
         \<and> (''modified'' \<in> dom params \<longleftrightarrow> ''modified'' \<in> dom fields_arg)
         \<and> (\<forall>t. fields_arg ''created'' = Some (TimeVal t)
               \<longrightarrow> params ''created'' = Some [Format t RFC3339Nano])
         \<and> (\<forall>t. fields_arg ''modified'' = Some (TimeVal t)
               \<longrightarrow> params ''modified'' = Some [Format t RFC3339Nano])
         \<and> (''created'' \<notin> dom fields_arg \<and> ''modified'' \<in> dom fields_arg
               \<longrightarrow> dom params = {''action'', ''modified''} \<and> params ''created'' = None)"
proof -
  let ?params = "\<lambda>k. if k = ''action'' then Some [''update'']
                    else if k = ''created'' \<or> k = ''modified''
                      then (case fields_arg k of Some (TimeVal t) \<Rightarrow> Some [Format t RFC3339Nano] | _ \<Rightarrow> None)
                    else None"
  have c: "fields_arg ''created'' = None \<or> (\<exists>t. fields_arg ''created'' = Some (TimeVal t))"
    using assms by (cases "fields_arg ''created''") (auto intro: any.exhaust)
  have m: "fields_arg ''modified'' = None \<or> (\<exists>t. fields_arg ''modified'' = Some (TimeVal t))"
    using assms by (cases "fields_arg ''modified''") (auto intro: any.exhaust)
  have up: "update_params Format fields_arg = Inr ?params"
    using assms by (rule update_params_times)
  have call: "update CallJSON Format PathEscape w path_arg fields_arg
                = Inr (CallJSON w (update_opts PathEscape path_arg ?params))"
    by (simp add: update_def up split: prod.split)
  have opts: "MultipartParams (update_opts PathEscape path_arg ?params :: 'o Opts) = Some ?params"
    by (simp add: update_opts_def)
  have action: "?params ''action'' = Some [''update'']"
    by simp
  have sub: "dom ?params \<subseteq> {''action'', ''created'', ''modified''}"
    by (auto split: if_splits)
  have pc: "?params ''created'' = (case fields_arg ''created'' of Some (TimeVal t) \<Rightarrow> Some [Format t RFC3339Nano] | _ \<Rightarrow> None)"
    by simp
  have pm: "?params ''modified'' = (case fields_arg ''modified'' of Some (TimeVal t) \<Rightarrow> Some [Format t RFC3339Nano] | _ \<Rightarrow> None)"
    by simp
  have dc: "''created'' \<in> dom ?params \<longleftrightarrow> ''created'' \<in> dom fields_arg"
    using c unfolding dom_def pc by auto
  have dm: "''modified'' \<in> dom ?params \<longleftrightarrow> ''modified'' \<in> dom fields_arg"
    using m unfolding dom_def pm by auto
  have tc: "\<forall>t. fields_arg ''created'' = Some (TimeVal t) \<longrightarrow> ?params ''created'' = Some [Format t RFC3339Nano]"
    unfolding pc by simp
  have tm: "\<forall>t. fields_arg ''modified'' = Some (TimeVal t) \<longrightarrow> ?params ''modified'' = Some [Format t RFC3339Nano]"
    unfolding pm by simp
  have only: "''created'' \<notin> dom fields_arg \<and> ''modified'' \<in> dom fields_arg
               \<longrightarrow> dom ?params = {''action'', ''modified''} \<and> ?params ''created'' = None"
  proof (intro impI)
    assume a: "''created'' \<notin> dom fields_arg \<and> ''modified'' \<in> dom fields_arg"
    then have nc: "''created'' \<notin> dom ?params" and ym: "''modified'' \<in> dom ?params"
      using dc dm by blast+
    have ya: "''action'' \<in> dom ?params" using action by blast
    have "dom ?params = {''action'', ''modified''}"
      using sub nc ym ya by blast
    moreover have "?params ''created'' = None" using nc by blast
    ultimately show "dom ?params = {''action'', ''modified''} \<and> ?params ''created'' = None" ..
  qed
  from call opts action sub dc dm tc tm only show ?thesis
    by (intro exI [of _ ?params] conjI)
qed

theorem update_timestamp_fields_witness:
  "\<exists>opts params. update (recording (node_at ''/a'')) fmt id [] ''/a'' [''modified'' \<mapsto> TimeVal (1::nat)]
        = Inr ([opts :: unit Opts], node_at ''/a'', None)
     \<and> MultipartParams opts = Some params
     \<and> dom params = {''action'', ''modified''}
     \<and> params ''created'' = None
     \<and> params ''modified'' = Some [''1970-01-01T00:00:00.000000001Z'']"
  using update_timestamp_fields [of "[''modified'' \<mapsto> TimeVal (1::nat)]" "recording (node_at ''/a'')" fmt id "[] :: unit Opts list" "''/a''"]
  by (auto simp: recording_def fmt_def)

text \<open>
  Without that condition the statement fails: a supplied value that is not a time (a
  string, or \<^verbatim>\<open>nil\<close>) makes the type assertion panic before any request is issued, so no
  form parameters are sent although the field was supplied.
\<close>

theorem update_non_time_counterexample:
  "''created'' \<in> dom [''created'' \<mapsto> (OtherVal ''string'' :: nat any)]
   \<and> update (recording (node_at ''/a'')) fmt id ([] :: unit Opts list) ''/a''
        [''created'' \<mapsto> OtherVal ''string'']
       = Inl (InterfaceConversion ''string'')
   \<and> update (recording (node_at ''/a'')) fmt id ([] :: unit Opts list) ''/a''
        [''created'' \<mapsto> OtherVal ''nil'', ''modified'' \<mapsto> TimeVal 1]
       = Inl (InterfaceConversion ''nil'')
   \<and> update (recording (node_at ''/a'')) fmt id ([] :: unit Opts list) ''/a''
        [''modified'' \<mapsto> OtherVal ''string'']
       = Inl (InterfaceConversion ''string'')"
  by (simp add: update_def update_params_def setTime_def Set_def Let_def)

end
